theory Spec2Isabelle
  imports Main "HOL-Library.Word"
begin

section \<open>Cyclone: worker state table, worker loop and master dispatch loop\<close>

text \<open>
  The development follows the Python sources: \<^verbatim>\<open>worker.py\<close> (the process-shared
  worker slot and the worker's run loop), \<^verbatim>\<open>ctrl/critical_section.py\<close>,
  \<^verbatim>\<open>master_comm_handler.py\<close> and \<^verbatim>\<open>cyclone-master.py\<close> (the dispatch loop of
  \<^verbatim>\<open>main\<close>). Exceptions are values of \<open>py_error\<close>; a function that can raise returns
  \<open>py_error + 'a\<close> with \<open>Inl\<close> for the exception.
\<close>

datatype py_error =
    ValueError
  | UnicodeEncodeError
  | UnicodeDecodeError
  | AttributeError
  | KeyError
  | RuntimeError
  | DecodeError
  | KeyboardInterrupt

text \<open>
  \<^verbatim>\<open>except Exception\<close> catches every exception of the model but KeyboardInterrupt, which
  derives from BaseException only.
\<close>

definition is_Exception :: "py_error \<Rightarrow> bool" where
  "is_Exception e = (e \<noteq> KeyboardInterrupt)"

subsection \<open>Python strings and their UTF-8 form\<close>

text \<open>
  A Python \<^verbatim>\<open>str\<close> is a sequence of code points; \<^verbatim>\<open>str.encode()\<close> and
  \<^verbatim>\<open>bytes.decode()\<close> use UTF-8 in strict mode. A byte is an 8-bit word.
\<close>

type_synonym pystr = "nat list"
type_synonym byte = "8 word"

definition encode_char :: "nat \<Rightarrow> py_error + byte list" where
  "encode_char c =
     (if c < 0x80 then Inr [of_nat c]
      else if c < 0x800 then Inr [of_nat (0xC0 + c div 0x40), of_nat (0x80 + c mod 0x40)]
      else if 0xD800 \<le> c \<and> c \<le> 0xDFFF then Inl UnicodeEncodeError
      else if c < 0x10000 then
        Inr [of_nat (0xE0 + c div 0x1000), of_nat (0x80 + (c div 0x40) mod 0x40),
             of_nat (0x80 + c mod 0x40)]
      else if c < 0x110000 then
        Inr [of_nat (0xF0 + c div 0x40000), of_nat (0x80 + (c div 0x1000) mod 0x40),
             of_nat (0x80 + (c div 0x40) mod 0x40), of_nat (0x80 + c mod 0x40)]
      else Inl UnicodeEncodeError)"

fun encode :: "pystr \<Rightarrow> py_error + byte list" where
  "encode [] = Inr []"
| "encode (c # cs) =
     (case encode_char c of
        Inl e \<Rightarrow> Inl e
      | Inr bs \<Rightarrow> (case encode cs of Inl e \<Rightarrow> Inl e | Inr rest \<Rightarrow> Inr (bs @ rest)))"

definition is_cont :: "byte \<Rightarrow> bool" where
  "is_cont b = (0x80 \<le> b \<and> b \<le> 0xBF)"

definition cont :: "byte \<Rightarrow> nat" where
  "cont b = unat b - 0x80"

definition emit :: "nat \<Rightarrow> py_error + pystr \<Rightarrow> py_error + pystr" where
  "emit c r = (case r of Inl e \<Rightarrow> Inl e | Inr cs \<Rightarrow> Inr (c # cs))"

fun decode :: "byte list \<Rightarrow> py_error + pystr" where
  "decode [] = Inr []"
| "decode (b # bs) =
     (if b < 0x80 then emit (unat b) (decode bs)
      else if 0xC2 \<le> b \<and> b \<le> 0xDF then
        (case bs of
           b1 # r \<Rightarrow>
             if is_cont b1 then emit ((unat b - 0xC0) * 0x40 + cont b1) (decode r)
             else Inl UnicodeDecodeError
         | _ \<Rightarrow> Inl UnicodeDecodeError)
      else if 0xE0 \<le> b \<and> b \<le> 0xEF then
        (case bs of
           b1 # b2 # r \<Rightarrow>
             if is_cont b1 \<and> is_cont b2 \<and> (b = 0xE0 \<longrightarrow> 0xA0 \<le> b1)
                \<and> (b = 0xED \<longrightarrow> b1 \<le> 0x9F)
             then emit ((unat b - 0xE0) * 0x1000 + cont b1 * 0x40 + cont b2) (decode r)
             else Inl UnicodeDecodeError
         | _ \<Rightarrow> Inl UnicodeDecodeError)
      else if 0xF0 \<le> b \<and> b \<le> 0xF4 then
        (case bs of
           b1 # b2 # b3 # r \<Rightarrow>
             if is_cont b1 \<and> is_cont b2 \<and> is_cont b3 \<and> (b = 0xF0 \<longrightarrow> 0x90 \<le> b1)
                \<and> (b = 0xF4 \<longrightarrow> b1 \<le> 0x8F)
             then emit ((unat b - 0xF0) * 0x40000 + cont b1 * 0x1000 + cont b2 * 0x40 + cont b3)
                    (decode r)
             else Inl UnicodeDecodeError
         | _ \<Rightarrow> Inl UnicodeDecodeError)
      else Inl UnicodeDecodeError)"

subsection \<open>The worker state table item (worker.py, class WorkerStateTableItem)\<close>

datatype WorkerState = NOT_READY | READY | EXECUTING

text \<open>
  \<^verbatim>\<open>multiprocessing.RawArray('c', 64)\<close> is a ctypes character array of 64 bytes, all zero
  at creation. Assigning its \<^verbatim>\<open>value\<close> raises ValueError for more bytes than the array
  holds, copies the bytes to the front of the array and, when there is room, writes one
  NUL byte after them; the bytes behind stay as they were. Reading \<^verbatim>\<open>value\<close> gives the
  bytes before the first NUL, all of them when there is none.
\<close>

definition set_value :: "byte list \<Rightarrow> byte list \<Rightarrow> py_error + byte list" where
  "set_value buf v =
     (if length buf < length v then Inl ValueError
      else if length v < length buf then Inr (v @ 0 # drop (length v + 1) buf)
      else Inr v)"

definition get_value :: "byte list \<Rightarrow> byte list" where
  "get_value buf = takeWhile (\<lambda>b. b \<noteq> 0) buf"

record WorkerStateTableItem =
  state_field :: WorkerState
  tid_field :: "byte list"
  timestamp_field :: "32 word"

definition new_item :: WorkerStateTableItem where
  "new_item = \<lparr>state_field = NOT_READY, tid_field = replicate 64 0, timestamp_field = 0\<rparr>"

definition get_state :: "WorkerStateTableItem \<Rightarrow> WorkerState" where
  "get_state it = state_field it"

definition get_tid :: "WorkerStateTableItem \<Rightarrow> py_error + pystr" where
  "get_tid it = decode (get_value (tid_field it))"

definition get_timestamp :: "WorkerStateTableItem \<Rightarrow> 32 word" where
  "get_timestamp it = timestamp_field it"

definition set_state :: "WorkerState \<Rightarrow> WorkerStateTableItem \<Rightarrow> WorkerStateTableItem" where
  "set_state s it = it\<lparr>state_field := s\<rparr>"

definition set_tid :: "pystr \<Rightarrow> WorkerStateTableItem \<Rightarrow> py_error + WorkerStateTableItem" where
  "set_tid task_name it =
     (case encode task_name of
        Inl e \<Rightarrow> Inl e
      | Inr bs \<Rightarrow>
          (case set_value (tid_field it) bs of
             Inl e \<Rightarrow> Inl e
           | Inr buf \<Rightarrow> Inr (it\<lparr>tid_field := buf\<rparr>)))"

text \<open>A ctypes \<^verbatim>\<open>c_uint\<close> keeps the low 32 bits of the integer assigned to it.\<close>

definition set_timestamp :: "int \<Rightarrow> WorkerStateTableItem \<Rightarrow> WorkerStateTableItem" where
  "set_timestamp t it = it\<lparr>timestamp_field := of_int t\<rparr>"

definition ascii :: "pystr \<Rightarrow> bool" where
  "ascii s = list_all (\<lambda>c. c < 0x80) s"

definition no_nul :: "pystr \<Rightarrow> bool" where
  "no_nul s = list_all (\<lambda>c. c \<noteq> 0) s"

subsection \<open>The scoped critical section (ctrl/critical_section.py)\<close>

text \<open>
  The class stores a lock, \<^verbatim>\<open>block\<close> (default True) and \<^verbatim>\<open>timeout\<close> (default None).
  \<^verbatim>\<open>__enter__\<close> calls \<^verbatim>\<open>lock.acquire(block, timeout)\<close>, drops what it returns and returns
  the object; \<^verbatim>\<open>__exit__\<close> calls \<^verbatim>\<open>lock.release()\<close>. The class defines no other method.
  What happens on the locks is kept as a trace of events.
\<close>

datatype lock_id = lock_worker_state_table | cond_result_queue | task_queue_lock

record CriticalSection =
  cs_lock :: lock_id
  cs_block :: bool
  cs_timeout :: "int option"

definition critical_section :: "lock_id \<Rightarrow> CriticalSection" where
  "critical_section l = \<lparr>cs_lock = l, cs_block = True, cs_timeout = None\<rparr>"

text \<open>A task is addressed by its tid only; its body is opaque.\<close>

record task =
  tid :: pystr

text \<open>
  Modelled from the spec: the replies of the master (module msg is not among the sources):
  TASK_ASSIGN with the task, WAIT with a duration in seconds, ACKNOWLEDGE and EXIT.
\<close>

datatype reply = TaskAssign task | WaitCommand int | Acknowledge | ExitCommand

datatype event =
    Acquire lock_id bool "int option"
  | Release lock_id
  | Execute pystr
  | Push pystr
  | Notify
  | LogError py_error
  | LogWarning
  | LogInfo
  | Send reply
  | StopDistribution

definition cs_enter :: "CriticalSection \<Rightarrow> event list" where
  "cs_enter cs = [Acquire (cs_lock cs) (cs_block cs) (cs_timeout cs)]"

definition cs_exit :: "CriticalSection \<Rightarrow> event list" where
  "cs_exit cs = [Release (cs_lock cs)]"

subsection \<open>The worker's run loop (worker.py, Worker.run)\<close>

text \<open>What one call of \<^verbatim>\<open>task.execute()\<close> does: it returns, or it raises.\<close>

datatype execute_outcome = Returns | Raises py_error

record worker =
  item :: WorkerStateTableItem
  result_queue :: "pystr list"
  trace :: "event list"

text \<open>
  Modelled from the spec: the result queue handed to the worker (its class is not part of
  worker.py) is an ordered sequence of tids, and \<^verbatim>\<open>push\<close> appends to it.
\<close>

definition push :: "'a \<Rightarrow> 'a list \<Rightarrow> 'a list" where
  "push x q = q @ [x]"

definition emit_events :: "event list \<Rightarrow> worker \<Rightarrow> worker" where
  "emit_events es w = w\<lparr>trace := trace w @ es\<rparr>"

text \<open>
  Lines 139 to 143 and 161 to 165: under the table lock, publish the state, the tid and
  the time. An exception of \<^verbatim>\<open>set_tid\<close> leaves the block through \<^verbatim>\<open>__exit__\<close> and
  leaves the loop.
\<close>

definition publish :: "WorkerState \<Rightarrow> pystr \<Rightarrow> int \<Rightarrow> worker \<Rightarrow> py_error + worker" where
  "publish st name now w =
     (let cs = critical_section lock_worker_state_table;
          w1 = emit_events (cs_enter cs) w
      in case set_tid name (set_state st (item w1)) of
           Inl e \<Rightarrow> Inl e
         | Inr it \<Rightarrow> Inr (emit_events (cs_exit cs) (w1\<lparr>item := set_timestamp now it\<rparr>)))"

text \<open>
  Lines 145 to 154: \<^verbatim>\<open>task.execute()\<close> inside \<^verbatim>\<open>try\<close>; \<^verbatim>\<open>except Exception\<close> logs an
  error and goes on.
\<close>

definition execute_task :: "task \<Rightarrow> execute_outcome \<Rightarrow> worker \<Rightarrow> py_error + worker" where
  "execute_task t outcome w =
     (let w1 = emit_events [Execute (tid t)] w
      in case outcome of
           Returns \<Rightarrow> Inr w1
         | Raises e \<Rightarrow> if is_Exception e then Inr (emit_events [LogError e] w1) else Inl e)"

text \<open>Lines 156 to 159: under the condition of the result queue, push the tid and notify.\<close>

definition report_result :: "task \<Rightarrow> worker \<Rightarrow> worker" where
  "report_result t w =
     (let cs = critical_section cond_result_queue;
          w1 = emit_events (cs_enter cs) w;
          w2 = emit_events [Push (tid t)] (w1\<lparr>result_queue := push (tid t) (result_queue w1)\<rparr>);
          w3 = emit_events [Notify] w2
      in emit_events (cs_exit cs) w3)"

text \<open>
  One pass of the \<^verbatim>\<open>while self.run_flag\<close> body for the task that \<^verbatim>\<open>pop\<close> returned;
  \<open>t1\<close> and \<open>t2\<close> are the two readings of the clock. \<open>Inl e\<close>: the exception \<open>e\<close>
  leaves the loop.
\<close>

definition run_iteration ::
  "task \<Rightarrow> execute_outcome \<Rightarrow> int \<Rightarrow> int \<Rightarrow> worker \<Rightarrow> py_error + worker" where
  "run_iteration t outcome t1 t2 w =
     (case publish EXECUTING (tid t) t1 w of
        Inl e \<Rightarrow> Inl e
      | Inr w1 \<Rightarrow>
          (case execute_task t outcome w1 of
             Inl e \<Rightarrow> Inl e
           | Inr w2 \<Rightarrow> publish READY [] t2 (report_result t w2)))"

definition error_events :: "execute_outcome \<Rightarrow> event list" where
  "error_events outcome = (case outcome of Returns \<Rightarrow> [] | Raises e \<Rightarrow> [LogError e])"

definition caught :: "execute_outcome \<Rightarrow> bool" where
  "caught outcome = (case outcome of Returns \<Rightarrow> True | Raises e \<Rightarrow> is_Exception e)"

subsection \<open>Dictionaries\<close>

text \<open>
  A Python dict keeps its keys in insertion order: assigning to a key that is there keeps
  its place, a new key goes to the end, \<^verbatim>\<open>pop(k, None)\<close> removes the key if it is there.
\<close>

fun dict_set :: "'k \<Rightarrow> 'v \<Rightarrow> ('k \<times> 'v) list \<Rightarrow> ('k \<times> 'v) list" where
  "dict_set k v [] = [(k, v)]"
| "dict_set k v (kv # d) = (if fst kv = k then (k, v) # d else kv # dict_set k v d)"

definition dict_pop :: "'k \<Rightarrow> ('k \<times> 'v) list \<Rightarrow> ('k \<times> 'v) list" where
  "dict_pop k d = filter (\<lambda>kv. fst kv \<noteq> k) d"

definition dict_get :: "('k \<times> 'v) list \<Rightarrow> 'k \<Rightarrow> 'v option" where
  "dict_get d k = map_of d k"

subsection \<open>Messages and task status\<close>

text \<open>
  Modelled from the spec: the message types (module msg.message_type is not among the
  sources) are the closed set of section 4.1. A received message carries its type, the
  sender, which is not set on every message (the comment at line 219), and for
  TASK_FINISHED the tid.
\<close>

datatype MessageType =
    TASK_REQUEST | TASK_FINISHED | HEARTBEAT | TASK_ASSIGN | WAIT_COMMAND | ACKNOWLEDGE
  | EXIT_COMMAND

record message =
  msg_type :: MessageType
  msg_sender :: "pystr option"
  msg_tid :: pystr

text \<open>
  Modelled from the spec: the task status item (module ctrl.task_status_item is not among
  the sources) is the record of tid, state, controller and timestamp that line 277 builds.
\<close>

datatype TaskState = assigned | finished

record TaskStatusItem =
  item_tid :: pystr
  state :: TaskState
  controller :: pystr
  timestamp :: int

subsection \<open>The critical section as the dispatcher uses it\<close>

text \<open>
  Line 230 of the dispatcher calls \<^verbatim>\<open>critical_section.is_locked()\<close> on the object that
  \<^verbatim>\<open>__enter__\<close> returned. The class of ctrl/critical_section.py, which the dispatcher
  imports at line 35, has no attribute \<^verbatim>\<open>is_locked\<close>: the call raises AttributeError,
  whatever \<^verbatim>\<open>acquire\<close> returned.
\<close>

definition is_locked :: "CriticalSection \<Rightarrow> py_error + bool" where
  "is_locked cs = Inl AttributeError"

subsection \<open>The state of the dispatch loop (cyclone-master.py, main)\<close>

record config =
  controller_timeout :: int
  task_resend_timeout :: int

definition max_error_count :: nat where
  "max_error_count = 100"

text \<open>
  The variables of \<^verbatim>\<open>main\<close> that the loop reads and writes, the two shared queues, and
  the trace of what the loop did: replies sent, lock operations, log records at level
  INFO and above, and the moment the distribution flag goes off.
\<close>

record master =
  TASK_DISTRIBUTION :: bool
  run_flag :: bool
  error_count :: nat
  controller_heartbeat_dict :: "(pystr \<times> int) list"
  task_status_dict :: "(pystr \<times> TaskStatusItem) list"
  controller_wait_duration :: int
  task_queue :: "task list"
  master_result_queue :: "pystr list"
  events :: "event list"

text \<open>
  What one pass of the loop gets from outside: the clock at line 206, what
  \<^verbatim>\<open>recv_string\<close> returned (None after the poll timeout), what \<^verbatim>\<open>MessageFactory.create\<close>
  makes of it (None: it raises), the clock at line 220 and at line 280 or 300, whether
  \<^verbatim>\<open>acquire\<close> got the lock of the task queue within its timeout, and whether the task
  generator is alive.
\<close>

record input =
  last_exec_timestamp :: int
  recv_data :: "pystr option"
  recv_msg :: "message option"
  time_at_heartbeat :: int
  time_at_status :: int
  acquired :: bool
  generator_alive :: bool

definition add_events :: "event list \<Rightarrow> master \<Rightarrow> master" where
  "add_events es m = m\<lparr>events := events m @ es\<rparr>"

text \<open>
  Modelled from the spec: \<^verbatim>\<open>send_string\<close> of the communication handler that the
  dispatcher imports (comm.master_handler is not among the sources) transmits one reply.
\<close>

definition send_string :: "reply \<Rightarrow> master \<Rightarrow> master" where
  "send_string r m = add_events [Send r] m"

definition stop_task_distribution :: "master \<Rightarrow> master" where
  "stop_task_distribution m =
     (if TASK_DISTRIBUTION m then add_events [StopDistribution] (m\<lparr>TASK_DISTRIBUTION := False\<rparr>)
      else m)"

datatype signum = SIGHUP | SIGINT | SIGTERM | SIGUSR1

definition signal_handler :: "signum \<Rightarrow> master \<Rightarrow> master" where
  "signal_handler signum m =
     (let m1 = (if signum = SIGHUP then stop_task_distribution (add_events [LogInfo] m) else m);
          m2 = (if signum = SIGINT then stop_task_distribution (add_events [LogInfo] m1) else m1)
      in if signum = SIGTERM then stop_task_distribution (add_events [LogInfo] m2) else m2)"

definition check_all_controller_down :: "nat \<Rightarrow> bool" where
  "check_all_controller_down count_active_controller = (count_active_controller = 0)"

text \<open>Lines 341 and 342, and 359 and 360: the loop ends when no controller is left.\<close>

definition shutdown_check :: "master \<Rightarrow> master" where
  "shutdown_check m =
     (if check_all_controller_down (length (controller_heartbeat_dict m))
      then add_events [LogInfo] (m\<lparr>run_flag := False\<rparr>)
      else m)"

subsection \<open>TASK_REQUEST\<close>

text \<open>
  Modelled from the spec: the shared queue (ctrl.shared_queue is not among the sources)
  is first in, first out, so that \<^verbatim>\<open>pop_nowait\<close> takes the head and \<^verbatim>\<open>is_empty\<close> tests
  for the empty list. Lines 226 to 243: the critical section is built with the lock of
  the task queue and \<^verbatim>\<open>timeout=1\<close>; an exception inside the block leaves it through
  \<^verbatim>\<open>__exit__\<close>. Line 239 assigns False to the flag; the trace notes it when the flag was
  on.
\<close>

definition pop_task :: "config \<Rightarrow> input \<Rightarrow> master \<Rightarrow> (py_error + task option) \<times> master" where
  "pop_task cfg inp m =
     (let cs = \<lparr>cs_lock = task_queue_lock, cs_block = True, cs_timeout = Some 1\<rparr>;
          m1 = add_events (cs_enter cs) m
      in case is_locked cs of
           Inl e \<Rightarrow> (Inl e, add_events (cs_exit cs) m1)
         | Inr locked \<Rightarrow>
             if locked then
               (case task_queue m1 of
                  t # q \<Rightarrow> (Inr (Some t), add_events (cs_exit cs) (m1\<lparr>task_queue := q\<rparr>))
                | [] \<Rightarrow>
                    if \<not> generator_alive inp then
                      (Inr None,
                       add_events (cs_exit cs)
                         (add_events
                            ((if TASK_DISTRIBUTION m1 then [StopDistribution] else [])
                             @ [LogInfo])
                            (m1\<lparr>TASK_DISTRIBUTION := False, controller_wait_duration := 0\<rparr>)))
                    else (Inr None, add_events (cs_exit cs) m1))
             else (Inr None, add_events (cs_exit cs) m1))"

text \<open>Lines 276 to 282: record the assignment, then the reply is TASK_ASSIGN.\<close>

definition do_task_assign :: "input \<Rightarrow> pystr \<Rightarrow> task \<Rightarrow> master \<Rightarrow> master" where
  "do_task_assign inp sender t m =
     send_string (TaskAssign t)
       (m\<lparr>task_status_dict :=
            dict_set (tid t)
              \<lparr>item_tid = tid t, state = assigned, controller = sender,
               timestamp = time_at_status inp\<rparr>
              (task_status_dict m)\<rparr>)"

text \<open>Lines 245 to 288, for the task that was popped, or None.\<close>

definition assign_or_wait ::
  "config \<Rightarrow> input \<Rightarrow> pystr \<Rightarrow> task option \<Rightarrow> master \<Rightarrow> py_error option \<times> master" where
  "assign_or_wait cfg inp sender popped m =
     (case popped of
        None \<Rightarrow> (None, send_string (WaitCommand (controller_wait_duration m)) m)
      | Some t \<Rightarrow>
          (case dict_get (task_status_dict m) (tid t) of
             None \<Rightarrow> (None, do_task_assign inp sender t m)
           | Some rec \<Rightarrow>
               (let task_resend_threshold = timestamp rec + task_resend_timeout cfg
                in if state rec = finished \<or> last_exec_timestamp inp \<ge> task_resend_threshold
                   then (None, do_task_assign inp sender t m)
                   else if state rec = assigned
                           \<and> last_exec_timestamp inp < task_resend_threshold
                   then (None, send_string (WaitCommand (controller_wait_duration m)) m)
                   else (Some RuntimeError, m))))"

definition task_request ::
  "config \<Rightarrow> input \<Rightarrow> pystr \<Rightarrow> master \<Rightarrow> py_error option \<times> master" where
  "task_request cfg inp sender m =
     (case pop_task cfg inp m of
        (Inl e, m1) \<Rightarrow> (Some e, m1)
      | (Inr popped, m1) \<Rightarrow> assign_or_wait cfg inp sender popped m1)"

subsection \<open>TASK_FINISHED\<close>

text \<open>Lines 290 to 316.\<close>

definition task_finished ::
  "input \<Rightarrow> pystr \<Rightarrow> pystr \<Rightarrow> master \<Rightarrow> py_error option \<times> master" where
  "task_finished inp sender t m =
     (case dict_get (task_status_dict m) t of
        None \<Rightarrow> (Some RuntimeError, m)
      | Some rec \<Rightarrow>
          (if sender = controller rec then
             (None,
              send_string Acknowledge
                (m\<lparr>task_status_dict :=
                     dict_set t (rec\<lparr>state := finished, timestamp := time_at_status inp\<rparr>)
                       (task_status_dict m),
                   master_result_queue := push t (master_result_queue m)\<rparr>))
           else (None, send_string Acknowledge (add_events [LogWarning] m))))"

subsection \<open>One pass of the loop\<close>

text \<open>Lines 330 to 342: the distribution is off.\<close>

definition graceful_shutdown :: "pystr \<Rightarrow> master \<Rightarrow> master" where
  "graceful_shutdown sender m =
     (let m1 = send_string ExitCommand m
      in shutdown_check
           (m1\<lparr>controller_heartbeat_dict := dict_pop sender (controller_heartbeat_dict m1)\<rparr>))"

text \<open>Lines 214 to 342: a message arrived.\<close>

definition handle_message ::
  "config \<Rightarrow> input \<Rightarrow> message \<Rightarrow> master \<Rightarrow> py_error option \<times> master" where
  "handle_message cfg inp msg m =
     (case msg_sender msg of
        None \<Rightarrow> (Some AttributeError, m)
      | Some sender \<Rightarrow>
          (let m1 = m\<lparr>controller_heartbeat_dict :=
                        dict_set sender (time_at_heartbeat inp) (controller_heartbeat_dict m)\<rparr>
           in if TASK_DISTRIBUTION m1 then
                (if msg_type msg = TASK_REQUEST then task_request cfg inp sender m1
                 else if msg_type msg = TASK_FINISHED
                   then task_finished inp sender (msg_tid msg) m1
                 else if msg_type msg = HEARTBEAT then (None, send_string Acknowledge m1)
                 else (Some RuntimeError, m1))
              else (None, graceful_shutdown sender m1)))"

text \<open>
  Lines 351 to 357: the loop over \<^verbatim>\<open>controller_heartbeat_dict.keys()\<close>, for the keys still
  to come. The keys are a view of the dict: once an entry is popped, the dict has changed
  size during the iteration, and the step to the next key raises RuntimeError, also when
  no key is left.
\<close>

fun prune :: "int \<Rightarrow> int \<Rightarrow> pystr list \<Rightarrow> (pystr \<times> int) list
    \<Rightarrow> py_error option \<times> (pystr \<times> int) list" where
  "prune now timeout [] d = (None, d)"
| "prune now timeout (controller_name # names) d =
     (case dict_get d controller_name of
        None \<Rightarrow> (Some KeyError, d)
      | Some seen \<Rightarrow>
          (let controller_threshold = seen + timeout
           in if now \<ge> controller_threshold
              then (Some RuntimeError, dict_pop controller_name d)
              else prune now timeout names d))"

text \<open>Lines 344 to 360: the poll timeout.\<close>

definition poll_timeout :: "config \<Rightarrow> input \<Rightarrow> master \<Rightarrow> py_error option \<times> master" where
  "poll_timeout cfg inp m =
     (if \<not> TASK_DISTRIBUTION m then
        (case prune (last_exec_timestamp inp) (controller_timeout cfg)
                (map fst (controller_heartbeat_dict m)) (controller_heartbeat_dict m) of
           (Some e, d) \<Rightarrow> (Some e, m\<lparr>controller_heartbeat_dict := d\<rparr>)
         | (None, d) \<Rightarrow> (None, shutdown_check (m\<lparr>controller_heartbeat_dict := d\<rparr>)))
      else (None, m))"

text \<open>Python's truth value of what \<^verbatim>\<open>recv_string\<close> returned: None and the empty string are false.\<close>

definition truthy :: "pystr option \<Rightarrow> bool" where
  "truthy r = (case r of None \<Rightarrow> False | Some s \<Rightarrow> s \<noteq> [])"

text \<open>Lines 206 to 360: the body of \<^verbatim>\<open>try\<close>.\<close>

definition loop_body :: "config \<Rightarrow> input \<Rightarrow> master \<Rightarrow> py_error option \<times> master" where
  "loop_body cfg inp m =
     (if truthy (recv_data inp) then
        (case recv_msg inp of
           None \<Rightarrow> (Some DecodeError, m)
         | Some msg \<Rightarrow> handle_message cfg inp msg m)
      else poll_timeout cfg inp m)"

text \<open>Lines 362 to 372: the handler of \<^verbatim>\<open>except Exception\<close>.\<close>

definition on_exception :: "py_error \<Rightarrow> master \<Rightarrow> master" where
  "on_exception err m =
     (let m1 = add_events [LogError err] (m\<lparr>error_count := error_count m + 1\<rparr>);
          m2 = stop_task_distribution m1
      in if error_count m2 = max_error_count then m2\<lparr>run_flag := False\<rparr> else m2)"

definition iteration :: "config \<Rightarrow> input \<Rightarrow> master \<Rightarrow> master" where
  "iteration cfg inp m =
     (case loop_body cfg inp m of
        (None, m1) \<Rightarrow> m1
      | (Some err, m1) \<Rightarrow> on_exception err m1)"

text \<open>
  Python runs the handler of a signal between two bytecodes of the pass. A signal handled
  before the pass tests the flag (line 222 or 349), or after the pass has sent its reply,
  acts as one handled before or after the pass. A signal handled after the test at line
  222 has found the distribution on does not change the branch the pass has taken:
  \<open>interrupted_body\<close> is the body of such a pass, with the handler run right after the
  test. Where the pass does not come to that test with the flag on, the signal is handled
  first.
\<close>

definition interrupted_body ::
  "config \<Rightarrow> signum \<Rightarrow> input \<Rightarrow> master \<Rightarrow> py_error option \<times> master" where
  "interrupted_body cfg signum inp m =
     (case (if truthy (recv_data inp) then recv_msg inp else None) of
        None \<Rightarrow> loop_body cfg inp (signal_handler signum m)
      | Some msg \<Rightarrow>
          (case msg_sender msg of
             None \<Rightarrow> loop_body cfg inp (signal_handler signum m)
           | Some sender \<Rightarrow>
               if TASK_DISTRIBUTION m then
                 (let m1 = signal_handler signum
                        (m\<lparr>controller_heartbeat_dict :=
                             dict_set sender (time_at_heartbeat inp)
                               (controller_heartbeat_dict m)\<rparr>)
                  in if msg_type msg = TASK_REQUEST then task_request cfg inp sender m1
                     else if msg_type msg = TASK_FINISHED
                       then task_finished inp sender (msg_tid msg) m1
                     else if msg_type msg = HEARTBEAT then (None, send_string Acknowledge m1)
                     else (Some RuntimeError, m1))
               else loop_body cfg inp (signal_handler signum m)))"

definition interrupted_iteration :: "config \<Rightarrow> signum \<Rightarrow> input \<Rightarrow> master \<Rightarrow> master" where
  "interrupted_iteration cfg signum inp m =
     (case interrupted_body cfg signum inp m of
        (None, m1) \<Rightarrow> m1
      | (Some err, m1) \<Rightarrow> on_exception err m1)"

text \<open>
  What happens to the loop, in order: a pass without a signal, a pass with a signal handled
  in it, a signal handled between two passes, a task pushed by the task generator.
\<close>

datatype occurrence = Pass input | Interrupted signum input | Signal signum | Generated task

fun occur :: "config \<Rightarrow> occurrence \<Rightarrow> master \<Rightarrow> master" where
  "occur cfg (Pass inp) m = iteration cfg inp m"
| "occur cfg (Interrupted signum inp) m = interrupted_iteration cfg signum inp m"
| "occur cfg (Signal signum) m = signal_handler signum m"
| "occur cfg (Generated t) m = m\<lparr>task_queue := push t (task_queue m)\<rparr>"

text \<open>The loop \<^verbatim>\<open>while run_flag\<close> along a finite run of occurrences.\<close>

fun main_loop :: "config \<Rightarrow> occurrence list \<Rightarrow> master \<Rightarrow> master" where
  "main_loop cfg [] m = m"
| "main_loop cfg (x # xs) m = (if run_flag m then main_loop cfg xs (occur cfg x m) else m)"

definition initial :: "int \<Rightarrow> master" where
  "initial wait_duration =
     \<lparr>TASK_DISTRIBUTION = True, run_flag = True, error_count = 0,
      controller_heartbeat_dict = [], task_status_dict = [],
      controller_wait_duration = wait_duration, task_queue = [], master_result_queue = [],
      events = []\<rparr>"

text \<open>The replies in a trace, and the part of a trace after the flag went off.\<close>

fun sent :: "event list \<Rightarrow> reply list" where
  "sent [] = []"
| "sent (Send r # es) = r # sent es"
| "sent (e # es) = sent es"

fun after_stop :: "event list \<Rightarrow> event list" where
  "after_stop [] = []"
| "after_stop (StopDistribution # es) = es"
| "after_stop (e # es) = after_stop es"

text \<open>
  What the drain phase may send: \<open>only_exit\<close> holds of replies that are all EXIT;
  \<open>drain_replies\<close> allows ACKNOWLEDGE as the first reply after the flag went off.
\<close>

definition only_exit :: "reply list \<Rightarrow> bool" where
  "only_exit rs = list_all (\<lambda>r. r = ExitCommand) rs"

fun drain_replies :: "reply list \<Rightarrow> bool" where
  "drain_replies [] = True"
| "drain_replies (r # rs) = ((r = ExitCommand \<or> r = Acknowledge) \<and> only_exit rs)"


subsection \<open>The master's communication handler (master_comm_handler.py)\<close>

text \<open>
  \<^verbatim>\<open>MasterCommHandler.__init__(self, target, port)\<close> takes the target and the port and
  nothing else; \<^verbatim>\<open>connect\<close> binds a REP socket; \<^verbatim>\<open>recv\<close> is \<^verbatim>\<open>self.socket.recv()\<close>, the
  blocking receive of the socket, with no flags and no poller, and returns what it got.
  The socket is given by what arrives at each tick of the clock. A call that does not
  return has the value None; a call that returns gives the message and the tick.
\<close>

record MasterCommHandler =
  target :: pystr
  port :: int
  socket :: "nat \<Rightarrow> byte list option"

partial_function (option) socket_recv ::
  "(nat \<Rightarrow> byte list option) \<Rightarrow> nat \<Rightarrow> (byte list \<times> nat) option" where
  "socket_recv arrivals now =
     (case arrivals now of
        Some in_msg \<Rightarrow> Some (in_msg, now)
      | None \<Rightarrow> socket_recv arrivals (Suc now))"

definition recv :: "MasterCommHandler \<Rightarrow> nat \<Rightarrow> (byte list \<times> nat) option" where
  "recv h now = socket_recv (socket h) now"

subsection \<open>Sample configuration, controllers, tasks and inputs\<close>

text \<open>The controllers "C1" and "C2", the tasks "T1" and "T2".\<close>

definition controller_C1 :: pystr where
  "controller_C1 = [67, 49]"

definition controller_C2 :: pystr where
  "controller_C2 = [67, 50]"

definition task_T1 :: task where
  "task_T1 = \<lparr>tid = [84, 49]\<rparr>"

definition task_T2 :: task where
  "task_T2 = \<lparr>tid = [84, 50]\<rparr>"

definition sample_config :: config where
  "sample_config = \<lparr>controller_timeout = 30, task_resend_timeout = 60\<rparr>"

text \<open>
  A pass at second \<open>now\<close> in which a message of the given type, sender and tid arrived, the
  lock could be taken and the task generator is alive; a pass with a message that the
  factory cannot decode; a pass in which the poll timed out.
\<close>

definition the_message :: "MessageType \<Rightarrow> pystr \<Rightarrow> pystr \<Rightarrow> message" where
  "the_message ty sender t = \<lparr>msg_type = ty, msg_sender = Some sender, msg_tid = t\<rparr>"

definition received :: "MessageType \<Rightarrow> pystr \<Rightarrow> pystr \<Rightarrow> int \<Rightarrow> input" where
  "received ty sender t now =
     \<lparr>last_exec_timestamp = now, recv_data = Some [63],
      recv_msg = Some (the_message ty sender t),
      time_at_heartbeat = now, time_at_status = now, acquired = True,
      generator_alive = True\<rparr>"

definition malformed :: "int \<Rightarrow> input" where
  "malformed now =
     \<lparr>last_exec_timestamp = now, recv_data = Some [63], recv_msg = None,
      time_at_heartbeat = now, time_at_status = now, acquired = True,
      generator_alive = True\<rparr>"

definition nothing_received :: "int \<Rightarrow> input" where
  "nothing_received now =
     \<lparr>last_exec_timestamp = now, recv_data = None, recv_msg = None,
      time_at_heartbeat = now, time_at_status = now, acquired = True,
      generator_alive = True\<rparr>"



text \<open>The master while it drains, with the heartbeats of the given controllers.\<close>

definition draining :: "(pystr \<times> int) list \<Rightarrow> master" where
  "draining heartbeats =
     (initial 5)\<lparr>TASK_DISTRIBUTION := False, controller_heartbeat_dict := heartbeats,
                 events := [StopDistribution]\<rparr>"

section \<open>Properties of the worker slot\<close>

lemma of_nat_byte_less: "c < 0x80 \<Longrightarrow> (of_nat c :: byte) < 0x80"
  by (simp add: word_less_nat_alt unat_of_nat take_bit_nat_eq_self)

lemma unat_of_nat_byte: "c < 0x80 \<Longrightarrow> unat (of_nat c :: byte) = c"
  by (simp add: unat_of_nat take_bit_nat_eq_self)

lemma of_nat_byte_nonzero: "c < 0x80 \<Longrightarrow> c \<noteq> 0 \<Longrightarrow> (of_nat c :: byte) \<noteq> 0"
  by (metis unat_of_nat_byte unat_0)

lemma encode_ascii: "ascii s \<Longrightarrow> encode s = Inr (map of_nat s)"
  by (induction s) (simp_all add: ascii_def encode_char_def)

lemma decode_ascii: "ascii s \<Longrightarrow> decode (map of_nat s) = Inr s"
  by (induction s) (simp_all add: ascii_def emit_def of_nat_byte_less unat_of_nat_byte)

lemma get_value_terminated: "0 \<notin> set bs \<Longrightarrow> get_value (bs @ 0 # rest) = bs"
  by (induction bs) (auto simp: get_value_def)

lemma get_value_full: "0 \<notin> set bs \<Longrightarrow> get_value bs = bs"
  by (induction bs) (auto simp: get_value_def)

lemma ascii_bytes_no_nul: "ascii s \<Longrightarrow> no_nul s \<Longrightarrow> 0 \<notin> set (map of_nat s :: byte list)"
  by (induction s) (auto simp: ascii_def no_nul_def of_nat_byte_nonzero)

lemma set_tid_encoded:
  assumes "encode name = Inr bs" and "length bs \<le> 64" and "length (tid_field it) = 64"
  shows "set_tid name it =
     Inr (it\<lparr>tid_field :=
       (if length bs < 64 then bs @ 0 # drop (length bs + 1) (tid_field it) else bs)\<rparr>)"
  using assms by (simp add: set_tid_def set_value_def)

text \<open>
  C10. For an ASCII tid of at most 64 bytes without NUL, \<^verbatim>\<open>set_tid\<close> on a slot succeeds
  and \<^verbatim>\<open>get_tid\<close> then returns exactly that tid, whatever the 64 bytes of the slot held
  before; state and timestamp of the slot are untouched.
\<close>

theorem set_tid_get_tid:
  assumes "ascii name" and "no_nul name" and "length name \<le> 64"
    and "length (tid_field it) = 64"
  shows "\<exists>it'. set_tid name it = Inr it' \<and> get_tid it' = Inr name
     \<and> length (tid_field it') = 64
     \<and> state_field it' = state_field it \<and> timestamp_field it' = timestamp_field it"
proof -
  let ?bs = "map of_nat name :: byte list"
  have nz: "0 \<notin> set ?bs" using assms(1,2) by (rule ascii_bytes_no_nul)
  have dec: "decode ?bs = Inr name" using assms(1) by (rule decode_ascii)
  have st: "set_tid name it =
     Inr (it\<lparr>tid_field :=
       (if length name < 64 then ?bs @ 0 # drop (length name + 1) (tid_field it)
        else ?bs)\<rparr>)"
    using set_tid_encoded [OF encode_ascii [OF assms(1)], of it] assms(3,4) by simp
  show ?thesis
  proof (cases "length name < 64")
    case True
    then show ?thesis
      using assms(4) st dec get_value_terminated [OF nz] by (simp add: get_tid_def)
  next
    case False
    then have "length name = 64" using assms(3) by simp
    then show ?thesis
      using st dec get_value_full [OF nz] by (simp add: get_tid_def)
  qed
qed

text \<open>The slot holds the six bytes of "LONGER"; the tid "T1" replaces them.\<close>

theorem set_tid_get_tid_witness:
  "ascii [84, 49] \<and> no_nul [84, 49] \<and> length [84, 49 :: nat] \<le> 64
   \<and> length (tid_field (new_item\<lparr>tid_field := [76, 79, 78, 71, 69, 82] @ replicate 58 0\<rparr>)) = 64
   \<and> (\<exists>it'. set_tid [84, 49]
          (new_item\<lparr>tid_field := [76, 79, 78, 71, 69, 82] @ replicate 58 0\<rparr>) = Inr it'
        \<and> get_tid it' = Inr [84, 49])"
  using set_tid_get_tid [of "[84, 49]"
      "new_item\<lparr>tid_field := [76, 79, 78, 71, 69, 82] @ replicate 58 0\<rparr>"]
  by (auto simp: ascii_def no_nul_def)

section \<open>Properties of the worker loop\<close>

lemma publish_encoded:
  assumes "encode name = Inr bs" and "length bs \<le> 64"
    and "length (tid_field (item w)) = 64"
  shows "\<exists>w'. publish st name now w = Inr w'
     \<and> result_queue w' = result_queue w
     \<and> trace w' = trace w @ [Acquire lock_worker_state_table True None,
                               Release lock_worker_state_table]
     \<and> state_field (item w') = st
     \<and> tid_field (item w') =
         (if length bs < 64 then bs @ 0 # drop (length bs + 1) (tid_field (item w)) else bs)
     \<and> timestamp_field (item w') = of_int now"
  using assms
  by (simp add: publish_def Let_def emit_events_def cs_enter_def cs_exit_def critical_section_def
      set_tid_encoded set_state_def set_timestamp_def)

lemma execute_task_caught:
  "caught outcome \<Longrightarrow>
   execute_task t outcome w = Inr (w\<lparr>trace := trace w @ Execute (tid t) # error_events outcome\<rparr>)"
  by (cases outcome) (simp_all add: execute_task_def caught_def error_events_def emit_events_def)

lemma report_result_eq:
  "report_result t w =
     w\<lparr>result_queue := result_queue w @ [tid t],
       trace := trace w @ [Acquire cond_result_queue True None, Push (tid t), Notify,
                           Release cond_result_queue]\<rparr>"
  by (simp add: report_result_def Let_def emit_events_def cs_enter_def cs_exit_def
      critical_section_def push_def)

text \<open>
  C9. A task whose tid fits the slot (it encodes to at most 64 bytes) is popped;
  \<^verbatim>\<open>task.execute()\<close> returns or raises an exception that \<^verbatim>\<open>except Exception\<close> catches.
  Then the pass through the loop body ends without an exception; a raised exception is
  logged as an error right after the execution; the tid is appended to the result queue
  between acquiring and releasing the condition of the result queue, followed by one
  notify; at the end the slot reads READY with the empty tid and the second clock reading.
\<close>

theorem run_iteration_reports:
  assumes "encode (tid t) = Inr bs" and "length bs \<le> 64"
    and "length (tid_field (item w)) = 64" and "caught outcome"
  shows "\<exists>w'. run_iteration t outcome t1 t2 w = Inr w'
     \<and> result_queue w' = result_queue w @ [tid t]
     \<and> trace w' = trace w @
         [Acquire lock_worker_state_table True None, Release lock_worker_state_table,
          Execute (tid t)] @ error_events outcome @
         [Acquire cond_result_queue True None, Push (tid t), Notify, Release cond_result_queue,
          Acquire lock_worker_state_table True None, Release lock_worker_state_table]
     \<and> get_state (item w') = READY \<and> get_tid (item w') = Inr []
     \<and> get_timestamp (item w') = of_int t2"
proof -
  obtain w1 where w1: "publish EXECUTING (tid t) t1 w = Inr w1"
      "result_queue w1 = result_queue w"
      "trace w1 = trace w @ [Acquire lock_worker_state_table True None,
                             Release lock_worker_state_table]"
      "tid_field (item w1) =
         (if length bs < 64 then bs @ 0 # drop (length bs + 1) (tid_field (item w)) else bs)"
    using publish_encoded [OF assms(1,2,3), of EXECUTING t1] by blast
  have len1: "length (tid_field (item w1)) = 64"
    using w1(4) assms(2,3) by simp
  define w2 where "w2 = w1\<lparr>trace := trace w1 @ Execute (tid t) # error_events outcome\<rparr>"
  have ex: "execute_task t outcome w1 = Inr w2"
    unfolding w2_def using assms(4) by (rule execute_task_caught)
  define w3 where "w3 = report_result t w2"
  have w3: "result_queue w3 = result_queue w @ [tid t]"
      "trace w3 = trace w2 @ [Acquire cond_result_queue True None, Push (tid t), Notify,
                           Release cond_result_queue]"
      "item w3 = item w1"
    by (simp_all add: w3_def report_result_eq w2_def w1(2))
  have len3: "length (tid_field (item w3)) = 64"
    using len1 w3(3) by simp
  have e: "encode [] = Inr []" "length ([]::byte list) \<le> 64"
    by simp_all
  obtain w4 where w4: "publish READY [] t2 w3 = Inr w4"
      "result_queue w4 = result_queue w3"
      "trace w4 = trace w3 @ [Acquire lock_worker_state_table True None,
                             Release lock_worker_state_table]"
      "state_field (item w4) = READY"
      "tid_field (item w4) = 0 # drop 1 (tid_field (item w3))"
      "timestamp_field (item w4) = of_int t2"
    using publish_encoded [OF e len3, of READY t2] by auto
  have run: "run_iteration t outcome t1 t2 w = Inr w4"
    by (simp add: run_iteration_def w1(1) ex w4(1) w3_def [symmetric])
  have tr: "trace w4 = trace w @
         [Acquire lock_worker_state_table True None, Release lock_worker_state_table,
          Execute (tid t)] @ error_events outcome @
         [Acquire cond_result_queue True None, Push (tid t), Notify, Release cond_result_queue,
          Acquire lock_worker_state_table True None, Release lock_worker_state_table]"
    by (simp add: w4(3) w3(2) w2_def w1(3))
  have gt: "get_tid (item w4) = Inr []"
    by (simp add: get_tid_def get_value_def w4(5))
  show ?thesis
    using run tr gt w4(2,4,6) w3(1) by (simp add: get_state_def get_timestamp_def)
qed

text \<open>The task "T1" raises RuntimeError in a fresh worker with an empty result queue.\<close>

theorem run_iteration_reports_witness:
  "encode (tid \<lparr>tid = [84, 49]\<rparr>) = Inr [84, 49] \<and> length [84, 49 :: byte] \<le> 64
   \<and> length (tid_field (item \<lparr>item = new_item, result_queue = [], trace = []\<rparr>)) = 64
   \<and> caught (Raises RuntimeError)
   \<and> (\<exists>w'. run_iteration \<lparr>tid = [84, 49]\<rparr> (Raises RuntimeError) 100 101
            \<lparr>item = new_item, result_queue = [], trace = []\<rparr> = Inr w'
        \<and> result_queue w' = [[84, 49]]
        \<and> trace w' =
          [Acquire lock_worker_state_table True None, Release lock_worker_state_table,
           Execute [84, 49], LogError RuntimeError,
           Acquire cond_result_queue True None, Push [84, 49], Notify,
           Release cond_result_queue,
           Acquire lock_worker_state_table True None, Release lock_worker_state_table]
        \<and> get_state (item w') = READY \<and> get_tid (item w') = Inr [])"
  using run_iteration_reports [of "\<lparr>tid = [84, 49]\<rparr>" "[84, 49]"
      "\<lparr>item = new_item, result_queue = [], trace = []\<rparr>" "Raises RuntimeError" 100 101]
  by (auto simp: encode_char_def new_item_def caught_def is_Exception_def error_events_def)

section \<open>Properties of the dispatch loop\<close>

lemmas pass_defs = iteration_def loop_body_def handle_message_def task_request_def pop_task_def
  is_locked_def assign_or_wait_def do_task_assign_def task_finished_def graceful_shutdown_def
  poll_timeout_def on_exception_def stop_task_distribution_def shutdown_check_def
  check_all_controller_down_def send_string_def add_events_def cs_enter_def cs_exit_def
  truthy_def dict_get_def dict_pop_def push_def max_error_count_def Let_def

lemmas sample_defs = controller_C1_def controller_C2_def task_T1_def task_T2_def
  sample_config_def the_message_def received_def malformed_def nothing_received_def
  draining_def initial_def

lemma dict_get_dict_set:
  "dict_get (dict_set k v d) k' = (if k' = k then Some v else dict_get d k')"
  by (induction d) (auto simp: dict_get_def)

lemma dict_pop_dict_set: "dict_pop k (dict_set k v d) = dict_pop k d"
  by (induction d) (auto simp: dict_pop_def)

lemma not_finished: "(s \<noteq> finished) = (s = assigned)"
  by (cases s) simp_all

lemma sent_append: "sent (a @ b) = sent a @ sent b"
  by (induction a rule: sent.induct) simp_all

subsection \<open>The decision on a popped task\<close>




subsection \<open>TASK_FINISHED\<close>

text \<open>
  C2. A TASK_FINISHED of \<open>sender\<close> for a tid is received while the distribution is on.
  If the tid has a record and the sender is its controller, the record becomes FINISHED
  with the clock read at line 300, the tid is appended to the result queue and the reply
  is ACKNOWLEDGE. If the tid has a record of another controller, a warning is logged,
  the reply is ACKNOWLEDGE, and task status and result queue are unchanged. If the tid
  has no record, RuntimeError is raised: the error is counted and logged, the
  distribution goes off, and task status and result queue are unchanged.
\<close>

theorem task_finished_attribution:
  assumes "TASK_DISTRIBUTION m" and "truthy (recv_data inp)" and "recv_msg inp = Some msg"
    and "msg_type msg = TASK_FINISHED" and "msg_sender msg = Some sender"
  shows "(\<forall>rec. dict_get (task_status_dict m) (msg_tid msg) = Some rec \<and> sender = controller rec
      \<longrightarrow> task_status_dict (iteration cfg inp m) =
            dict_set (msg_tid msg) (rec\<lparr>state := finished, timestamp := time_at_status inp\<rparr>)
              (task_status_dict m)
        \<and> dict_get (task_status_dict (iteration cfg inp m)) (msg_tid msg) =
            Some (rec\<lparr>state := finished, timestamp := time_at_status inp\<rparr>)
        \<and> master_result_queue (iteration cfg inp m) = master_result_queue m @ [msg_tid msg]
        \<and> events (iteration cfg inp m) = events m @ [Send Acknowledge]
        \<and> TASK_DISTRIBUTION (iteration cfg inp m)
        \<and> error_count (iteration cfg inp m) = error_count m)
     \<and> (\<forall>rec. dict_get (task_status_dict m) (msg_tid msg) = Some rec \<and> sender \<noteq> controller rec
      \<longrightarrow> task_status_dict (iteration cfg inp m) = task_status_dict m
        \<and> master_result_queue (iteration cfg inp m) = master_result_queue m
        \<and> events (iteration cfg inp m) = events m @ [LogWarning, Send Acknowledge]
        \<and> TASK_DISTRIBUTION (iteration cfg inp m)
        \<and> error_count (iteration cfg inp m) = error_count m)
     \<and> (dict_get (task_status_dict m) (msg_tid msg) = None
      \<longrightarrow> error_count (iteration cfg inp m) = error_count m + 1
        \<and> \<not> TASK_DISTRIBUTION (iteration cfg inp m)
        \<and> events (iteration cfg inp m) = events m @ [LogError RuntimeError, StopDistribution]
        \<and> task_status_dict (iteration cfg inp m) = task_status_dict m
        \<and> master_result_queue (iteration cfg inp m) = master_result_queue m)"
  using assms
  by (simp add: iteration_def loop_body_def handle_message_def task_finished_def
      send_string_def add_events_def Let_def dict_get_dict_set push_def on_exception_def
      stop_task_distribution_def)

text \<open>
  "T1" is assigned to "C1" since second 100. "C1" reports it finished at second 130; "C2"
  reports it finished at second 130; "C1" reports the unknown "T2" finished.
\<close>

theorem task_finished_attribution_witness:
  "TASK_DISTRIBUTION ((initial 5)\<lparr>task_status_dict := [(tid task_T1,
       \<lparr>item_tid = tid task_T1, state = assigned, controller = controller_C1,
        timestamp = 100\<rparr>)]\<rparr>)
   \<and> truthy (recv_data (received TASK_FINISHED controller_C1 (tid task_T1) 130))
   \<and> recv_msg (received TASK_FINISHED controller_C1 (tid task_T1) 130)
       = Some (the_message TASK_FINISHED controller_C1 (tid task_T1))
   \<and> msg_type (the_message TASK_FINISHED controller_C1 (tid task_T1)) = TASK_FINISHED
   \<and> msg_sender (the_message TASK_FINISHED controller_C1 (tid task_T1)) = Some controller_C1
   \<and> task_status_dict (iteration sample_config
        (received TASK_FINISHED controller_C1 (tid task_T1) 130)
        ((initial 5)\<lparr>task_status_dict := [(tid task_T1,
           \<lparr>item_tid = tid task_T1, state = assigned, controller = controller_C1,
            timestamp = 100\<rparr>)]\<rparr>))
      = [(tid task_T1, \<lparr>item_tid = tid task_T1, state = finished, controller = controller_C1,
            timestamp = 130\<rparr>)]
   \<and> master_result_queue (iteration sample_config
        (received TASK_FINISHED controller_C1 (tid task_T1) 130)
        ((initial 5)\<lparr>task_status_dict := [(tid task_T1,
           \<lparr>item_tid = tid task_T1, state = assigned, controller = controller_C1,
            timestamp = 100\<rparr>)]\<rparr>))
      = [tid task_T1]
   \<and> events (iteration sample_config
        (received TASK_FINISHED controller_C1 (tid task_T1) 130)
        ((initial 5)\<lparr>task_status_dict := [(tid task_T1,
           \<lparr>item_tid = tid task_T1, state = assigned, controller = controller_C1,
            timestamp = 100\<rparr>)]\<rparr>))
      = [Send Acknowledge]
   \<and> events (iteration sample_config
        (received TASK_FINISHED controller_C2 (tid task_T1) 130)
        ((initial 5)\<lparr>task_status_dict := [(tid task_T1,
           \<lparr>item_tid = tid task_T1, state = assigned, controller = controller_C1,
            timestamp = 100\<rparr>)]\<rparr>))
      = [LogWarning, Send Acknowledge]
   \<and> task_status_dict (iteration sample_config
        (received TASK_FINISHED controller_C2 (tid task_T1) 130)
        ((initial 5)\<lparr>task_status_dict := [(tid task_T1,
           \<lparr>item_tid = tid task_T1, state = assigned, controller = controller_C1,
            timestamp = 100\<rparr>)]\<rparr>))
      = [(tid task_T1, \<lparr>item_tid = tid task_T1, state = assigned, controller = controller_C1,
            timestamp = 100\<rparr>)]
   \<and> events (iteration sample_config
        (received TASK_FINISHED controller_C1 (tid task_T2) 130)
        ((initial 5)\<lparr>task_status_dict := [(tid task_T1,
           \<lparr>item_tid = tid task_T1, state = assigned, controller = controller_C1,
            timestamp = 100\<rparr>)]\<rparr>))
      = [LogError RuntimeError, StopDistribution]"
  using task_finished_attribution [of "(initial 5)\<lparr>task_status_dict := [(tid task_T1,
           \<lparr>item_tid = tid task_T1, state = assigned, controller = controller_C1,
            timestamp = 100\<rparr>)]\<rparr>"
      "received TASK_FINISHED controller_C1 (tid task_T1) 130"
      "the_message TASK_FINISHED controller_C1 (tid task_T1)" controller_C1 sample_config]
    task_finished_attribution [of "(initial 5)\<lparr>task_status_dict := [(tid task_T1,
           \<lparr>item_tid = tid task_T1, state = assigned, controller = controller_C1,
            timestamp = 100\<rparr>)]\<rparr>"
      "received TASK_FINISHED controller_C2 (tid task_T1) 130"
      "the_message TASK_FINISHED controller_C2 (tid task_T1)" controller_C2 sample_config]
    task_finished_attribution [of "(initial 5)\<lparr>task_status_dict := [(tid task_T1,
           \<lparr>item_tid = tid task_T1, state = assigned, controller = controller_C1,
            timestamp = 100\<rparr>)]\<rparr>"
      "received TASK_FINISHED controller_C1 (tid task_T2) 130"
      "the_message TASK_FINISHED controller_C1 (tid task_T2)" controller_C1 sample_config]
  by (simp add: sample_defs truthy_def dict_get_def)

subsection \<open>Messages during the drain\<close>

text \<open>
  C5. A message with a sender is received while the distribution is off. Then the reply
  is EXIT, the sender is no longer in the heartbeat map (the other entries are as
  before), and the loop goes on exactly if it was running and the map is not empty.
\<close>

theorem graceful_shutdown_reply:
  assumes "\<not> TASK_DISTRIBUTION m" and "truthy (recv_data inp)" and "recv_msg inp = Some msg"
    and "msg_sender msg = Some sender"
  shows "controller_heartbeat_dict (iteration cfg inp m) =
           dict_pop sender (controller_heartbeat_dict m)
     \<and> events (iteration cfg inp m) = events m @ Send ExitCommand #
          (if dict_pop sender (controller_heartbeat_dict m) = [] then [LogInfo] else [])
     \<and> run_flag (iteration cfg inp m) =
          (run_flag m \<and> controller_heartbeat_dict (iteration cfg inp m) \<noteq> [])"
  using assms
  by (simp add: iteration_def loop_body_def handle_message_def graceful_shutdown_def
      send_string_def add_events_def Let_def shutdown_check_def check_all_controller_down_def
      dict_pop_dict_set)

text \<open>
  "C1" and "C2" are known; a heartbeat of "C1" arrives: "C2" is left and the loop goes on.
  Only "C1" is known; its heartbeat arrives: the map is empty and the loop ends.
\<close>

theorem graceful_shutdown_reply_witness:
  "\<not> TASK_DISTRIBUTION (draining [(controller_C1, 90), (controller_C2, 95)])
   \<and> truthy (recv_data (received HEARTBEAT controller_C1 [] 100))
   \<and> recv_msg (received HEARTBEAT controller_C1 [] 100)
       = Some (the_message HEARTBEAT controller_C1 [])
   \<and> msg_sender (the_message HEARTBEAT controller_C1 []) = Some controller_C1
   \<and> controller_heartbeat_dict (iteration sample_config
        (received HEARTBEAT controller_C1 [] 100)
        (draining [(controller_C1, 90), (controller_C2, 95)])) = [(controller_C2, 95)]
   \<and> events (iteration sample_config (received HEARTBEAT controller_C1 [] 100)
        (draining [(controller_C1, 90), (controller_C2, 95)]))
      = [StopDistribution, Send ExitCommand]
   \<and> run_flag (iteration sample_config (received HEARTBEAT controller_C1 [] 100)
        (draining [(controller_C1, 90), (controller_C2, 95)]))
   \<and> controller_heartbeat_dict (iteration sample_config
        (received HEARTBEAT controller_C1 [] 100) (draining [(controller_C1, 90)])) = []
   \<and> \<not> run_flag (iteration sample_config (received HEARTBEAT controller_C1 [] 100)
        (draining [(controller_C1, 90)]))"
  using graceful_shutdown_reply [of "draining [(controller_C1, 90), (controller_C2, 95)]"
      "received HEARTBEAT controller_C1 [] 100" "the_message HEARTBEAT controller_C1 []"
      controller_C1 sample_config]
    graceful_shutdown_reply [of "draining [(controller_C1, 90)]"
      "received HEARTBEAT controller_C1 [] 100" "the_message HEARTBEAT controller_C1 []"
      controller_C1 sample_config]
  by (simp add: sample_defs truthy_def dict_pop_def)

subsection \<open>Replies after the distribution went off\<close>

lemma after_stop_append_absent:
  "StopDistribution \<notin> set a \<Longrightarrow> after_stop (a @ b) = after_stop b"
  by (induction a rule: after_stop.induct) simp_all

lemma after_stop_append_present:
  "StopDistribution \<in> set a \<Longrightarrow> after_stop (a @ b) = after_stop a @ b"
  by (induction a rule: after_stop.induct) simp_all

lemma after_stop_absent: "StopDistribution \<notin> set a \<Longrightarrow> after_stop a = []"
  by (induction a rule: after_stop.induct) simp_all

lemma only_exit_drain: "only_exit rs \<Longrightarrow> drain_replies rs"
  by (cases rs) (simp_all add: only_exit_def)

lemma drain_replies_append: "drain_replies a \<Longrightarrow> only_exit b \<Longrightarrow> drain_replies (a @ b)"
  by (cases a) (simp_all add: only_exit_def only_exit_drain)

lemma on_exception_off:
  "\<not> TASK_DISTRIBUTION m \<Longrightarrow>
   events (on_exception e m) = events m @ [LogError e] \<and> \<not> TASK_DISTRIBUTION (on_exception e m)"
  by (simp add: on_exception_def Let_def stop_task_distribution_def add_events_def)

lemma on_exception_on:
  "TASK_DISTRIBUTION m \<Longrightarrow>
   events (on_exception e m) = events m @ [LogError e, StopDistribution]
   \<and> \<not> TASK_DISTRIBUTION (on_exception e m)"
  by (simp add: on_exception_def Let_def stop_task_distribution_def add_events_def)

lemma signal_handler_off:
  "\<not> TASK_DISTRIBUTION m \<Longrightarrow>
   \<not> TASK_DISTRIBUTION (signal_handler s m)
   \<and> (events (signal_handler s m) = events m \<or> events (signal_handler s m) = events m @ [LogInfo])"
  by (cases s)
    (simp_all add: signal_handler_def stop_task_distribution_def add_events_def Let_def)

text \<open>A signal that is not one of the three handled ones changes nothing; the others stop.\<close>

lemma signal_handler_on:
  "TASK_DISTRIBUTION m \<Longrightarrow>
   signal_handler s m = m
   \<or> signal_handler s m =
       m\<lparr>TASK_DISTRIBUTION := False, events := events m @ [LogInfo, StopDistribution]\<rparr>"
  by (cases s)
    (simp_all add: signal_handler_def stop_task_distribution_def add_events_def Let_def)

lemma poll_timeout_off:
  assumes "\<not> TASK_DISTRIBUTION m" and "poll_timeout cfg inp m = (r, m1)"
  shows "\<not> TASK_DISTRIBUTION m1 \<and> (events m1 = events m \<or> events m1 = events m @ [LogInfo])"
  using assms
  by (auto simp: poll_timeout_def shutdown_check_def add_events_def
      split: prod.splits option.splits if_splits)

lemma handle_message_off:
  assumes "\<not> TASK_DISTRIBUTION m" and "handle_message cfg inp msg m = (r, m1)"
  shows "\<not> TASK_DISTRIBUTION m1
     \<and> (events m1 = events m \<or> events m1 = events m @ [Send ExitCommand]
        \<or> events m1 = events m @ [Send ExitCommand, LogInfo])"
  using assms
  by (auto simp: handle_message_def graceful_shutdown_def shutdown_check_def send_string_def
      add_events_def Let_def split: option.splits if_splits)

text \<open>A pass that starts with the distribution off sends EXIT or nothing and leaves it off.\<close>

lemma iteration_off:
  assumes "\<not> TASK_DISTRIBUTION m"
  shows "\<not> TASK_DISTRIBUTION (iteration cfg inp m)
     \<and> (\<exists>es. events (iteration cfg inp m) = events m @ es \<and> only_exit (sent es))"
proof -
  obtain r m1 where b: "loop_body cfg inp m = (r, m1)"
    by (cases "loop_body cfg inp m")
  have m1: "\<not> TASK_DISTRIBUTION m1
     \<and> (events m1 = events m \<or> events m1 = events m @ [LogInfo]
        \<or> events m1 = events m @ [Send ExitCommand]
        \<or> events m1 = events m @ [Send ExitCommand, LogInfo])"
    using b assms poll_timeout_off [of m cfg inp r m1] handle_message_off [of m cfg inp _ r m1]
    by (auto simp: loop_body_def split: if_splits option.splits)
  show ?thesis
  proof (cases r)
    case None
    with b have "iteration cfg inp m = m1" by (simp add: iteration_def)
    with m1 show ?thesis by (auto simp: only_exit_def)
  next
    case (Some e)
    with b have "iteration cfg inp m = on_exception e m1" by (simp add: iteration_def)
    with m1 on_exception_off [of m1 e] show ?thesis by (auto simp: only_exit_def)
  qed
qed

text \<open>With the distribution off, a pass with a signal is the pass after the signal.\<close>

lemma interrupted_off:
  "\<not> TASK_DISTRIBUTION m \<Longrightarrow>
   interrupted_iteration cfg s inp m = iteration cfg inp (signal_handler s m)"
  by (simp add: interrupted_iteration_def interrupted_body_def iteration_def
      split: option.splits)

lemma signalled_iteration_off:
  assumes "\<not> TASK_DISTRIBUTION m"
  shows "\<not> TASK_DISTRIBUTION (iteration cfg inp (signal_handler s m))
     \<and> (\<exists>es. events (iteration cfg inp (signal_handler s m)) = events m @ es
          \<and> only_exit (sent es))"
proof -
  from signal_handler_off [OF assms, of s] have
    off: "\<not> TASK_DISTRIBUTION (signal_handler s m)"
    and ev: "events (signal_handler s m) = events m
      \<or> events (signal_handler s m) = events m @ [LogInfo]" by simp_all
  from iteration_off [OF off, of cfg inp] obtain es where
    es: "\<not> TASK_DISTRIBUTION (iteration cfg inp (signal_handler s m))"
      "events (iteration cfg inp (signal_handler s m)) = events (signal_handler s m) @ es"
      "only_exit (sent es)" by blast
  from ev show ?thesis
  proof
    assume "events (signal_handler s m) = events m"
    with es show ?thesis by auto
  next
    assume "events (signal_handler s m) = events m @ [LogInfo]"
    with es(2) have "events (iteration cfg inp (signal_handler s m)) = events m @ (LogInfo # es)"
      by simp
    moreover have "only_exit (sent (LogInfo # es))" using es(3) by simp
    ultimately show ?thesis using es(1) by blast
  qed
qed

lemma occur_off:
  assumes "\<not> TASK_DISTRIBUTION m"
  shows "\<not> TASK_DISTRIBUTION (occur cfg x m)
     \<and> (\<exists>es. events (occur cfg x m) = events m @ es \<and> only_exit (sent es))"
proof (cases x)
  case (Pass inp)
  with iteration_off [OF assms] show ?thesis by simp
next
  case (Interrupted s inp)
  with signalled_iteration_off [OF assms] interrupted_off [OF assms] show ?thesis by simp
next
  case (Signal s)
  with signal_handler_off [OF assms, of s] show ?thesis
    by (auto simp: only_exit_def)
next
  case (Generated t)
  with assms show ?thesis by (simp add: only_exit_def)
qed

lemma main_loop_off:
  "\<not> TASK_DISTRIBUTION m \<Longrightarrow>
   \<not> TASK_DISTRIBUTION (main_loop cfg xs m)
   \<and> (\<exists>es. events (main_loop cfg xs m) = events m @ es \<and> only_exit (sent es))"
proof (induction xs arbitrary: m)
  case Nil
  then show ?case by (simp add: only_exit_def)
next
  case (Cons x xs)
  show ?case
  proof (cases "run_flag m")
    case False
    with Cons.prems show ?thesis by (simp add: only_exit_def)
  next
    case True
    from occur_off [OF Cons.prems, of cfg x] obtain es1 where
      1: "\<not> TASK_DISTRIBUTION (occur cfg x m)" "events (occur cfg x m) = events m @ es1"
        "only_exit (sent es1)" by blast
    from Cons.IH [OF 1(1)] obtain es2 where
      2: "\<not> TASK_DISTRIBUTION (main_loop cfg xs (occur cfg x m))"
        "events (main_loop cfg xs (occur cfg x m)) = events (occur cfg x m) @ es2"
        "only_exit (sent es2)" by blast
    have "events (main_loop cfg (x # xs) m) = events m @ (es1 @ es2)"
      using True 1(2) 2(2) by simp
    moreover have "only_exit (sent (es1 @ es2))"
      using 1(3) 2(3) by (simp add: sent_append only_exit_def)
    moreover have "\<not> TASK_DISTRIBUTION (main_loop cfg (x # xs) m)"
      using True 2(1) by simp
    ultimately show ?thesis by blast
  qed
qed

text \<open>
  What the three branches of the dispatch do to the flag and to the trace: they leave the
  flag as it is, and send nothing or one ACKNOWLEDGE.
\<close>

lemma task_request_raises:
  "task_request cfg inp sender m =
     (Some AttributeError,
      m\<lparr>events := events m @ [Acquire task_queue_lock True (Some 1),
                                Release task_queue_lock]\<rparr>)"
  by (simp add: task_request_def pop_task_def is_locked_def Let_def add_events_def cs_enter_def
      cs_exit_def)

lemma task_finished_events:
  assumes "task_finished inp sender t m = (r, m1)"
  shows "TASK_DISTRIBUTION m1 = TASK_DISTRIBUTION m
     \<and> (\<exists>es. events m1 = events m @ es \<and> StopDistribution \<notin> set es
          \<and> (sent es = [] \<or> sent es = [Acknowledge]))"
  using assms
  by (auto simp: task_finished_def send_string_def add_events_def
      split: option.splits if_splits)

lemma dispatch_events:
  assumes "(if msg_type msg = TASK_REQUEST then task_request cfg inp sender m
            else if msg_type msg = TASK_FINISHED
              then task_finished inp sender (msg_tid msg) m
            else if msg_type msg = HEARTBEAT then (None, send_string Acknowledge m)
            else (Some RuntimeError, m)) = (r, m1)"
  shows "TASK_DISTRIBUTION m1 = TASK_DISTRIBUTION m
     \<and> (\<exists>es. events m1 = events m @ es \<and> StopDistribution \<notin> set es
          \<and> (sent es = [] \<or> sent es = [Acknowledge]))"
proof -
  consider (req) "msg_type msg = TASK_REQUEST"
    | (fin) "msg_type msg \<noteq> TASK_REQUEST" "msg_type msg = TASK_FINISHED"
    | (hb) "msg_type msg \<noteq> TASK_REQUEST" "msg_type msg \<noteq> TASK_FINISHED"
        "msg_type msg = HEARTBEAT"
    | (other) "msg_type msg \<noteq> TASK_REQUEST" "msg_type msg \<noteq> TASK_FINISHED"
        "msg_type msg \<noteq> HEARTBEAT"
    by blast
  then show ?thesis
  proof cases
    case req
    with assms show ?thesis by (auto simp: task_request_raises)
  next
    case fin
    with assms have "task_finished inp sender (msg_tid msg) m = (r, m1)" by simp
    from task_finished_events [OF this] show ?thesis .
  next
    case hb
    with assms show ?thesis by (auto simp: send_string_def add_events_def)
  next
    case other
    with assms show ?thesis by auto
  qed
qed

lemma handle_message_on:
  assumes "handle_message cfg inp msg m = (r, m1)" and "TASK_DISTRIBUTION m"
  shows "TASK_DISTRIBUTION m1
     \<and> (\<exists>es. events m1 = events m @ es \<and> StopDistribution \<notin> set es)"
proof (cases "msg_sender msg")
  case None
  with assms show ?thesis by (simp add: handle_message_def)
next
  case (Some sender)
  define m0 where "m0 = m\<lparr>controller_heartbeat_dict :=
      dict_set sender (time_at_heartbeat inp) (controller_heartbeat_dict m)\<rparr>"
  have m0: "TASK_DISTRIBUTION m0" "events m0 = events m"
    using assms(2) by (simp_all add: m0_def)
  from assms Some have "(if msg_type msg = TASK_REQUEST then task_request cfg inp sender m0
            else if msg_type msg = TASK_FINISHED
              then task_finished inp sender (msg_tid msg) m0
            else if msg_type msg = HEARTBEAT then (None, send_string Acknowledge m0)
            else (Some RuntimeError, m0)) = (r, m1)"
    unfolding m0_def by (simp add: handle_message_def Let_def split del: if_split)
  from dispatch_events [OF this] m0 show ?thesis by auto
qed

text \<open>
  A pass without a signal that starts with the distribution on either leaves it on, or
  raises: then it has sent nothing, and the handler switches the distribution off.
\<close>

lemma iteration_on:
  assumes "TASK_DISTRIBUTION m"
  shows "\<exists>es. events (iteration cfg inp m) = events m @ es
     \<and> (if TASK_DISTRIBUTION (iteration cfg inp m) then StopDistribution \<notin> set es
        else StopDistribution \<in> set es \<and> drain_replies (sent (after_stop es)))"
proof -
  obtain r m1 where b: "loop_body cfg inp m = (r, m1)"
    by (cases "loop_body cfg inp m")
  have "TASK_DISTRIBUTION m1 \<and> (\<exists>es. events m1 = events m @ es \<and> StopDistribution \<notin> set es)"
    using b assms handle_message_on [of cfg inp _ m r m1]
    by (auto simp: loop_body_def poll_timeout_def split: if_splits option.splits)
  then obtain es where es: "TASK_DISTRIBUTION m1" "events m1 = events m @ es"
    "StopDistribution \<notin> set es" by blast
  show ?thesis
  proof (cases r)
    case None
    with b es show ?thesis by (auto simp: iteration_def)
  next
    case (Some e)
    with b have "iteration cfg inp m = on_exception e m1" by (simp add: iteration_def)
    with on_exception_on [OF es(1), of e] es(2,3)
    have "events (iteration cfg inp m) = events m @ (es @ [LogError e, StopDistribution])"
      "\<not> TASK_DISTRIBUTION (iteration cfg inp m)"
      "sent (after_stop (es @ [LogError e, StopDistribution])) = []"
      by (simp_all add: after_stop_append_absent)
    then show ?thesis by (intro exI [of _ "es @ [LogError e, StopDistribution]"]) simp
  qed
qed

text \<open>
  A pass with a signal that starts with the distribution on: after the flag went off it
  sends nothing, or the one reply of the pass, EXIT or ACKNOWLEDGE.
\<close>

lemma signalled_iteration_on:
  assumes "TASK_DISTRIBUTION m"
  shows "\<exists>es. events (iteration cfg inp (signal_handler s m)) = events m @ es
     \<and> (if TASK_DISTRIBUTION (iteration cfg inp (signal_handler s m))
        then StopDistribution \<notin> set es
        else StopDistribution \<in> set es \<and> drain_replies (sent (after_stop es)))"
proof -
  from signal_handler_on [OF assms, of s] show ?thesis
  proof
    assume "signal_handler s m = m"
    with iteration_on [OF assms, of cfg inp] show ?thesis by simp
  next
    assume st: "signal_handler s m =
       m\<lparr>TASK_DISTRIBUTION := False, events := events m @ [LogInfo, StopDistribution]\<rparr>"
    then have off: "\<not> TASK_DISTRIBUTION (signal_handler s m)" by simp
    from iteration_off [OF off, of cfg inp] obtain es where
      es: "\<not> TASK_DISTRIBUTION (iteration cfg inp (signal_handler s m))"
        "events (iteration cfg inp (signal_handler s m)) = events (signal_handler s m) @ es"
        "only_exit (sent es)" by blast
    have "events (iteration cfg inp (signal_handler s m))
        = events m @ (LogInfo # StopDistribution # es)"
      using es(2) st by simp
    moreover have "drain_replies (sent (after_stop (LogInfo # StopDistribution # es)))"
      using es(3) by (simp add: only_exit_drain)
    ultimately show ?thesis
      using es(1) by (intro exI [of _ "LogInfo # StopDistribution # es"]) simp
  qed
qed

lemma interrupted_on:
  assumes "TASK_DISTRIBUTION m"
  shows "\<exists>es. events (interrupted_iteration cfg s inp m) = events m @ es
     \<and> (if TASK_DISTRIBUTION (interrupted_iteration cfg s inp m)
        then StopDistribution \<notin> set es
        else StopDistribution \<in> set es \<and> drain_replies (sent (after_stop es)))"
proof (cases "\<exists>msg sender. truthy (recv_data inp) \<and> recv_msg inp = Some msg
    \<and> msg_sender msg = Some sender")
  case False
  then have "interrupted_iteration cfg s inp m = iteration cfg inp (signal_handler s m)"
    by (auto simp: interrupted_iteration_def interrupted_body_def iteration_def
        split: option.splits)
  with signalled_iteration_on [OF assms, of cfg inp s] show ?thesis by simp
next
  case True
  then obtain msg sender where msg: "truthy (recv_data inp)" "recv_msg inp = Some msg"
    "msg_sender msg = Some sender" by blast
  define m0 where "m0 = m\<lparr>controller_heartbeat_dict :=
      dict_set sender (time_at_heartbeat inp) (controller_heartbeat_dict m)\<rparr>"
  have m0: "TASK_DISTRIBUTION m0" "events m0 = events m"
    using assms by (simp_all add: m0_def)
  obtain r m2 where d: "(if msg_type msg = TASK_REQUEST
            then task_request cfg inp sender (signal_handler s m0)
            else if msg_type msg = TASK_FINISHED
              then task_finished inp sender (msg_tid msg) (signal_handler s m0)
            else if msg_type msg = HEARTBEAT
              then (None, send_string Acknowledge (signal_handler s m0))
            else (Some RuntimeError, signal_handler s m0)) = (r, m2)"
    by (metis surj_pair)
  have body: "interrupted_body cfg s inp m = (r, m2)"
    using msg assms d unfolding m0_def
    by (simp add: interrupted_body_def Let_def split del: if_split)
  from dispatch_events [OF d] obtain es where
    es: "TASK_DISTRIBUTION m2 = TASK_DISTRIBUTION (signal_handler s m0)"
      "events m2 = events (signal_handler s m0) @ es" "StopDistribution \<notin> set es"
      "sent es = [] \<or> sent es = [Acknowledge]" by blast
  from signal_handler_on [OF m0(1), of s] show ?thesis
  proof
    assume same: "signal_handler s m0 = m0"
    with es m0 have on: "TASK_DISTRIBUTION m2" and ev: "events m2 = events m @ es"
      by simp_all
    show ?thesis
    proof (cases r)
      case None
      with body on ev es(3) show ?thesis by (auto simp: interrupted_iteration_def)
    next
      case (Some e)
      with body have "interrupted_iteration cfg s inp m = on_exception e m2"
        by (simp add: interrupted_iteration_def)
      with on_exception_on [OF on, of e] ev es(3)
      have "events (interrupted_iteration cfg s inp m)
          = events m @ (es @ [LogError e, StopDistribution])"
        "\<not> TASK_DISTRIBUTION (interrupted_iteration cfg s inp m)"
        "sent (after_stop (es @ [LogError e, StopDistribution])) = []"
        by (simp_all add: after_stop_append_absent)
      then show ?thesis by (intro exI [of _ "es @ [LogError e, StopDistribution]"]) simp
    qed
  next
    assume st: "signal_handler s m0 =
       m0\<lparr>TASK_DISTRIBUTION := False, events := events m0 @ [LogInfo, StopDistribution]\<rparr>"
    with es m0 have off: "\<not> TASK_DISTRIBUTION m2"
      and ev: "events m2 = events m @ (LogInfo # StopDistribution # es)"
      by simp_all
    have dr: "drain_replies (sent es)" using es(4) by (auto simp: only_exit_def)
    show ?thesis
    proof (cases r)
      case None
      with body have "interrupted_iteration cfg s inp m = m2"
        by (simp add: interrupted_iteration_def)
      with off ev dr show ?thesis
        by (intro exI [of _ "LogInfo # StopDistribution # es"]) simp
    next
      case (Some e)
      with body have "interrupted_iteration cfg s inp m = on_exception e m2"
        by (simp add: interrupted_iteration_def)
      with on_exception_off [OF off, of e] ev
      have "events (interrupted_iteration cfg s inp m)
          = events m @ (LogInfo # StopDistribution # es @ [LogError e])"
        "\<not> TASK_DISTRIBUTION (interrupted_iteration cfg s inp m)"
        by simp_all
      moreover have "drain_replies (sent (after_stop
          (LogInfo # StopDistribution # es @ [LogError e])))"
        using dr by (simp add: sent_append)
      ultimately show ?thesis
        by (intro exI [of _ "LogInfo # StopDistribution # es @ [LogError e]"]) simp
    qed
  qed
qed

lemma occur_on:
  assumes "TASK_DISTRIBUTION m"
  shows "\<exists>es. events (occur cfg x m) = events m @ es
     \<and> (if TASK_DISTRIBUTION (occur cfg x m) then StopDistribution \<notin> set es
        else StopDistribution \<in> set es \<and> drain_replies (sent (after_stop es)))"
proof (cases x)
  case (Pass inp)
  with iteration_on [OF assms] show ?thesis by simp
next
  case (Interrupted s inp)
  with interrupted_on [OF assms] show ?thesis by simp
next
  case (Signal s)
  from signal_handler_on [OF assms, of s] Signal assms show ?thesis
    by (auto intro: exI [of _ "[LogInfo, StopDistribution]"])
next
  case (Generated t)
  with assms show ?thesis by simp
qed

lemma main_loop_on:
  "TASK_DISTRIBUTION m \<Longrightarrow> StopDistribution \<notin> set (events m) \<Longrightarrow>
   drain_replies (sent (after_stop (events (main_loop cfg xs m))))"
proof (induction xs arbitrary: m)
  case Nil
  then show ?case by (simp add: after_stop_absent)
next
  case (Cons x xs)
  show ?case
  proof (cases "run_flag m")
    case False
    with Cons.prems show ?thesis by (simp add: after_stop_absent)
  next
    case True
    from occur_on [OF Cons.prems(1), of cfg x] obtain es where
      es: "events (occur cfg x m) = events m @ es"
        "if TASK_DISTRIBUTION (occur cfg x m) then StopDistribution \<notin> set es
         else StopDistribution \<in> set es \<and> drain_replies (sent (after_stop es))"
      by blast
    show ?thesis
    proof (cases "TASK_DISTRIBUTION (occur cfg x m)")
      case on: True
      with es Cons.prems(2) have "StopDistribution \<notin> set (events (occur cfg x m))" by simp
      from Cons.IH [OF on this] True show ?thesis by simp
    next
      case off: False
      from main_loop_off [OF off, of cfg xs] obtain es2 where
        es2: "events (main_loop cfg xs (occur cfg x m)) = events (occur cfg x m) @ es2"
          "only_exit (sent es2)" by blast
      from es off have st: "StopDistribution \<in> set es"
        "drain_replies (sent (after_stop es))" by simp_all
      have "after_stop (events (main_loop cfg (x # xs) m)) = after_stop es @ es2"
        using True es(1) es2(1) Cons.prems(2) st(1)
        by (simp add: after_stop_append_absent after_stop_append_present)
      then have "sent (after_stop (events (main_loop cfg (x # xs) m)))
          = sent (after_stop es) @ sent es2"
        by (simp add: sent_append)
      with st(2) es2(2) show ?thesis
        by (simp add: drain_replies_append)
    qed
  qed
qed

text \<open>
  C4, as amended. Along every run of the loop from its start, with signals handled
  between passes and inside passes, every reply sent after the distribution flag went
  off is EXIT, except that the first reply after that moment may be ACKNOWLEDGE; no
  TASK_ASSIGN and no WAIT is sent after it. From a state with the flag off, every pass
  sends only EXIT and the flag stays off: an ACKNOWLEDGE after the flag went off is the
  reply of the pass that had found the flag on at line 222 before a signal switched it
  off.
\<close>

theorem drain_replies_after_stop:
  "drain_replies (sent (after_stop (events (main_loop cfg xs (initial wait_duration)))))
   \<and> (\<not> TASK_DISTRIBUTION m
      \<longrightarrow> \<not> TASK_DISTRIBUTION (main_loop cfg ys m)
        \<and> (\<exists>es. events (main_loop cfg ys m) = events m @ es \<and> only_exit (sent es)))"
proof
  show "drain_replies (sent (after_stop (events (main_loop cfg xs (initial wait_duration)))))"
    by (rule main_loop_on) (simp_all add: initial_def)
  show "\<not> TASK_DISTRIBUTION m
      \<longrightarrow> \<not> TASK_DISTRIBUTION (main_loop cfg ys m)
        \<and> (\<exists>es. events (main_loop cfg ys m) = events m @ es \<and> only_exit (sent es))"
    using main_loop_off [of m cfg ys] by blast
qed

text \<open>
  The master drains with "C1" and "C2" known; a heartbeat of "C1" and, in a pass with
  SIGTERM, a TASK_REQUEST of "C2" arrive. And from the start: a heartbeat of "C1" in a
  pass with SIGTERM, then another heartbeat of "C1".
\<close>

theorem drain_replies_after_stop_witness:
  "\<not> TASK_DISTRIBUTION (draining [(controller_C1, 90), (controller_C2, 95)])
   \<and> \<not> TASK_DISTRIBUTION (main_loop sample_config
        [Pass (received HEARTBEAT controller_C1 [] 100),
         Interrupted SIGTERM (received TASK_REQUEST controller_C2 [] 101)]
        (draining [(controller_C1, 90), (controller_C2, 95)]))
   \<and> (\<exists>es. events (main_loop sample_config
        [Pass (received HEARTBEAT controller_C1 [] 100),
         Interrupted SIGTERM (received TASK_REQUEST controller_C2 [] 101)]
        (draining [(controller_C1, 90), (controller_C2, 95)]))
        = events (draining [(controller_C1, 90), (controller_C2, 95)]) @ es
      \<and> only_exit (sent es))
   \<and> drain_replies (sent (after_stop (events (main_loop sample_config
        [Interrupted SIGTERM (received HEARTBEAT controller_C1 [] 100),
         Pass (received HEARTBEAT controller_C1 [] 101)] (initial 5)))))"
  using drain_replies_after_stop [where cfg = sample_config
      and xs = "[Interrupted SIGTERM (received HEARTBEAT controller_C1 [] 100),
         Pass (received HEARTBEAT controller_C1 [] 101)]"
      and wait_duration = 5
      and m = "draining [(controller_C1, 90), (controller_C2, 95)]"
      and ys = "[Pass (received HEARTBEAT controller_C1 [] 100),
         Interrupted SIGTERM (received TASK_REQUEST controller_C2 [] 101)]"]
  by (simp add: draining_def initial_def)

text \<open>
  C4, as stated, fails. From the start, a heartbeat of "C1" is received with the
  distribution on; SIGTERM is handled after the test at line 222 and switches the flag
  off; the pass then sends ACKNOWLEDGE at line 325, after the flag went off.
\<close>

theorem acknowledge_sent_after_stop:
  "events (main_loop sample_config
       [Interrupted SIGTERM (received HEARTBEAT controller_C1 [] 100)] (initial 5))
     = [LogInfo, StopDistribution, Send Acknowledge]
   \<and> \<not> only_exit (sent (after_stop (events (main_loop sample_config
       [Interrupted SIGTERM (received HEARTBEAT controller_C1 [] 100)] (initial 5)))))"
  by (simp add: pass_defs sample_defs only_exit_def interrupted_iteration_def
      interrupted_body_def signal_handler_def)

subsection \<open>Passes that raise\<close>

text \<open>
  C3 (the code does not do what the claim says). A message that the factory cannot
  decode arrives while the distribution is on: \<^verbatim>\<open>MessageFactory.create\<close> raises, the
  handler counts and logs the error and switches the distribution off, and the loop
  goes on; no reply is sent for this message. With the next message, a heartbeat of
  "C1", two messages were received and one reply, EXIT, was sent.
\<close>

theorem malformed_message_gets_no_reply:
  "events (iteration sample_config (malformed 100) (initial 5)) =
     [LogError DecodeError, StopDistribution]
   \<and> sent (events (iteration sample_config (malformed 100) (initial 5))) = []
   \<and> run_flag (iteration sample_config (malformed 100) (initial 5))
   \<and> error_count (iteration sample_config (malformed 100) (initial 5)) = 1
   \<and> sent (events (main_loop sample_config
        [Pass (malformed 100), Pass (received HEARTBEAT controller_C1 [] 101)] (initial 5)))
      = [ExitCommand]"
  by (simp add: pass_defs sample_defs)

text \<open>Whatever the state: a message that cannot be decoded is not answered.\<close>

lemma undecodable_no_reply:
  "truthy (recv_data inp) \<Longrightarrow> recv_msg inp = None \<Longrightarrow>
   sent (events (iteration cfg inp m)) = sent (events m)
   \<and> error_count (iteration cfg inp m) = error_count m + 1
   \<and> \<not> TASK_DISTRIBUTION (iteration cfg inp m)"
  by (simp add: iteration_def loop_body_def on_exception_def stop_task_distribution_def
      add_events_def Let_def sent_append)

text \<open>
  C6 (the code does not do what the claim says). The poll times out at second 100 while
  the master drains, with a controller timeout of 30 seconds. With the expired entries
  of "C1" and "C2" (last seen at second 0), the loop over the keys pops "C1" and then
  raises RuntimeError: "C2" stays, the error is counted and logged. With the one expired
  entry of "C1", the entry is popped and RuntimeError is raised all the same: the map is
  empty, but the check that ends the loop is not reached and \<open>run_flag\<close> is still set.
\<close>

theorem prune_raises:
  "events (iteration sample_config (nothing_received 100)
       (draining [(controller_C1, 0), (controller_C2, 0)]))
     = [StopDistribution, LogError RuntimeError]
   \<and> controller_heartbeat_dict (iteration sample_config (nothing_received 100)
       (draining [(controller_C1, 0), (controller_C2, 0)])) = [(controller_C2, 0)]
   \<and> error_count (iteration sample_config (nothing_received 100)
       (draining [(controller_C1, 0), (controller_C2, 0)])) = 1
   \<and> controller_heartbeat_dict (iteration sample_config (nothing_received 100)
       (draining [(controller_C1, 0)])) = []
   \<and> run_flag (iteration sample_config (nothing_received 100) (draining [(controller_C1, 0)]))
   \<and> error_count (iteration sample_config (nothing_received 100)
       (draining [(controller_C1, 0)])) = 1"
  by (simp add: pass_defs sample_defs)

text \<open>Without an expired entry the loop over the keys ends and nothing is removed.\<close>

lemma prune_none_expired:
  "list_all (\<lambda>kv. now < snd kv + timeout) d \<Longrightarrow> distinct (map fst d) \<Longrightarrow>
   set ks \<subseteq> fst ` set d \<Longrightarrow> prune now timeout ks d = (None, d)"
proof (induction ks)
  case Nil
  then show ?case by simp
next
  case (Cons k ks)
  then obtain v where v: "(k, v) \<in> set d" by auto
  with Cons.prems(2) have "dict_get d k = Some v" by (simp add: dict_get_def)
  moreover from v Cons.prems(1) have "now < v + timeout"
    by (auto simp: list_all_iff)
  ultimately show ?case using Cons by simp
qed

text \<open>
  C7 (the code does not do what the claim says). A TASK_REQUEST of "C1" arrives while
  the distribution is on and "T1" is in the queue: the lock is acquired with a timeout
  of one second, the call of \<^verbatim>\<open>is_locked\<close> raises AttributeError, the lock is released,
  the queue is untouched, no reply is sent, the error is counted and the distribution
  goes off.
\<close>

theorem is_locked_raises:
  "events (iteration sample_config (received TASK_REQUEST controller_C1 [] 100)
       ((initial 5)\<lparr>task_queue := [task_T1]\<rparr>))
     = [Acquire task_queue_lock True (Some 1), Release task_queue_lock,
        LogError AttributeError, StopDistribution]
   \<and> task_queue (iteration sample_config (received TASK_REQUEST controller_C1 [] 100)
       ((initial 5)\<lparr>task_queue := [task_T1]\<rparr>)) = [task_T1]
   \<and> error_count (iteration sample_config (received TASK_REQUEST controller_C1 [] 100)
       ((initial 5)\<lparr>task_queue := [task_T1]\<rparr>)) = 1"
  by (simp add: pass_defs sample_defs)

text \<open>Whatever the state: a TASK_REQUEST received with the distribution on raises.\<close>

lemma task_request_always_raises:
  assumes "TASK_DISTRIBUTION m" and "truthy (recv_data inp)" and "recv_msg inp = Some msg"
    and "msg_type msg = TASK_REQUEST" and "msg_sender msg = Some sender"
  shows "task_queue (iteration cfg inp m) = task_queue m
     \<and> events (iteration cfg inp m) = events m @
         [Acquire task_queue_lock True (Some 1), Release task_queue_lock,
          LogError AttributeError, StopDistribution]
     \<and> error_count (iteration cfg inp m) = error_count m + 1"
  using assms
  by (simp add: iteration_def loop_body_def handle_message_def task_request_raises
      on_exception_def stop_task_distribution_def add_events_def Let_def)

subsection \<open>The blocking receive\<close>

lemma socket_recv_returns_arrival:
  assumes "socket_recv arrivals now = Some y"
  shows "arrivals (snd y) = Some (fst y) \<and> now \<le> snd y"
proof (rule socket_recv.raw_induct
    [where P = "\<lambda>arrivals now y. arrivals (snd y) = Some (fst y) \<and> now \<le> snd y", OF _ assms])
  fix f :: "(nat \<Rightarrow> byte list option) \<Rightarrow> nat \<Rightarrow> (byte list \<times> nat) option"
  fix arrivals now y
  assume ih: "\<And>a n z. f a n = Some z \<Longrightarrow> a (snd z) = Some (fst z) \<and> n \<le> snd z"
    and step: "(case arrivals now of None \<Rightarrow> f arrivals (Suc now)
                | Some in_msg \<Rightarrow> Some (in_msg, now)) = Some y"
  show "arrivals (snd y) = Some (fst y) \<and> now \<le> snd y"
  proof (cases "arrivals now")
    case None
    with step have "f arrivals (Suc now) = Some y" by simp
    from ih [OF this] show ?thesis by simp
  next
    case (Some in_msg)
    with step show ?thesis by auto
  qed
qed

text \<open>A message that arrives \<open>k\<close> ticks after the call is returned at that tick.\<close>

lemma socket_recv_waits:
  "arrivals (now + k) = Some in_msg \<Longrightarrow> (\<forall>j < k. arrivals (now + j) = None) \<Longrightarrow>
   socket_recv arrivals now = Some (in_msg, now + k)"
proof (induction k arbitrary: now)
  case 0
  then show ?case by (simp add: socket_recv.simps)
next
  case (Suc k)
  have "arrivals now = None" using Suc.prems(2) [rule_format, of 0] by simp
  moreover have "socket_recv arrivals (Suc now) = Some (in_msg, Suc now + k)"
  proof (rule Suc.IH)
    show "arrivals (Suc now + k) = Some in_msg" using Suc.prems(1) by simp
    show "\<forall>j<k. arrivals (Suc now + j) = None"
      using Suc.prems(2) by (metis Suc_less_eq add_Suc_shift)
  qed
  ultimately show ?case by (subst socket_recv.simps) simp
qed

text \<open>
  C8, as amended. \<^verbatim>\<open>recv\<close> has no poll timeout. It returns the first message that
  arrives at or after the call, at the tick of its arrival, however late that is; what
  it returns is a message that arrived, never the absence of data; and where no message
  arrives it does not return.
\<close>

theorem recv_waits_for_message:
  "(socket h (now + k) = Some in_msg \<and> (\<forall>j < k. socket h (now + j) = None)
      \<longrightarrow> recv h now = Some (in_msg, now + k))
   \<and> (recv h now = Some (in_msg, t) \<longrightarrow> socket h t = Some in_msg \<and> now \<le> t)
   \<and> ((\<forall>t. now \<le> t \<longrightarrow> socket h t = None) \<longrightarrow> recv h now = None)"
proof (intro conjI impI)
  assume "socket h (now + k) = Some in_msg \<and> (\<forall>j < k. socket h (now + j) = None)"
  then show "recv h now = Some (in_msg, now + k)"
    by (simp add: recv_def socket_recv_waits)
next
  assume "recv h now = Some (in_msg, t)"
  then have "socket_recv (socket h) now = Some (in_msg, t)" by (simp add: recv_def)
  from socket_recv_returns_arrival [OF this] show "socket h t = Some in_msg" "now \<le> t"
    by simp_all
next
  assume silent: "\<forall>t. now \<le> t \<longrightarrow> socket h t = None"
  show "recv h now = None"
  proof (cases "recv h now")
    case None
    then show ?thesis .
  next
    case (Some y)
    then have "socket_recv (socket h) now = Some y" by (simp add: recv_def)
    from socket_recv_returns_arrival [OF this]
    have a: "socket h (snd y) = Some (fst y)" and b: "now \<le> snd y" by simp_all
    from silent b have "socket h (snd y) = None" by blast
    with a show ?thesis by simp
  qed
qed

text \<open>A message arrives at tick 3, and \<^verbatim>\<open>recv\<close> is called at tick 1.\<close>

theorem recv_waits_for_message_witness:
  "socket \<lparr>target = [42], port = 5555, socket = (\<lambda>t. if t = 3 then Some [1] else None)\<rparr>
      (1 + 2) = Some [1]
   \<and> recv \<lparr>target = [42], port = 5555, socket = (\<lambda>t. if t = 3 then Some [1] else None)\<rparr> 1
      = Some ([1], 3)"
  using recv_waits_for_message [where
      h = "\<lparr>target = [42], port = 5555, socket = (\<lambda>t. if t = 3 then Some [1] else None)\<rparr>"
      and now = 1 and k = 2 and in_msg = "[1]"]
  by simp

text \<open>
  C8, as stated, fails. On an endpoint where no message ever arrives, \<^verbatim>\<open>recv\<close> does not
  return: no poll timeout gives the caller the absence of data.
\<close>

theorem recv_blocks_forever:
  "recv \<lparr>target = [42], port = 5555, socket = (\<lambda>t. None)\<rparr> 0 = None"
proof (cases "recv \<lparr>target = [42], port = 5555, socket = (\<lambda>t. None)\<rparr> 0")
  case None
  then show ?thesis .
next
  case (Some y)
  then have "socket_recv (\<lambda>t. None) 0 = Some y" by (simp add: recv_def)
  from socket_recv_returns_arrival [OF this] show ?thesis by simp
qed


end
